theory Spec2Isabelle
  imports Complex_Main "HOL-Library.Multiset"
begin

section \<open>Host values\<close>

text \<open>
  The sources are browser scripts. A script string is modelled as a \<^typ>\<open>string\<close>, one
  \<^typ>\<open>char\<close> for each code unit, for strings whose code units are below 256. The
  literals that the sources compare with are of the ASCII range.
\<close>

text \<open>\<^verbatim>\<open>s.startsWith(p)\<close>: the first \<open>length p\<close> code units of \<open>s\<close> are \<open>p\<close>.\<close>

definition startsWith :: "string \<Rightarrow> string \<Rightarrow> bool" where
  "startsWith s p = (take (length p) s = p)"

text \<open>
  A script number: an IEEE double is a finite value, an infinity or NaN. The sources
  modelled here only compare numbers, with zero and with \<open>0.5\<close>, and a comparison of doubles
  is exact, so the finite values are modelled as reals.
\<close>

datatype jsnum = NaN | Finite real | PosInfinity | NegInfinity

text \<open>\<^verbatim>\<open>n > r\<close> and \<^verbatim>\<open>n <= r\<close> for a finite \<open>r\<close>: every comparison with NaN is false.\<close>

fun js_gt :: "jsnum \<Rightarrow> real \<Rightarrow> bool" where
  "js_gt NaN r = False"
| "js_gt (Finite a) r = (a > r)"
| "js_gt PosInfinity r = True"
| "js_gt NegInfinity r = False"

fun js_le :: "jsnum \<Rightarrow> real \<Rightarrow> bool" where
  "js_le NaN r = False"
| "js_le (Finite a) r = (a \<le> r)"
| "js_le PosInfinity r = False"
| "js_le NegInfinity r = True"

text \<open>
  The values a response body can hold (\<^verbatim>\<open>data: any\<close>). An object is the list of its own
  enumerable properties in the order of \<^verbatim>\<open>Object.keys\<close>; the keys of an object are
  distinct.
\<close>

datatype jsval =
    JUndefined
  | JNull
  | JBool bool
  | JNum jsnum
  | JStr string
  | JArr "jsval list"
  | JObj "(string \<times> jsval) list"

datatype js_error = TypeError

text \<open>Truthiness, as \<^verbatim>\<open>if (v)\<close> and \<^verbatim>\<open>v || w\<close> read it.\<close>

fun truthy :: "jsval \<Rightarrow> bool" where
  "truthy JUndefined = False"
| "truthy JNull = False"
| "truthy (JBool b) = b"
| "truthy (JNum n) = (n \<noteq> NaN \<and> n \<noteq> Finite 0)"
| "truthy (JStr s) = (s \<noteq> [])"
| "truthy (JArr xs) = True"
| "truthy (JObj kvs) = True"

text \<open>The decimal numeral of an array index, the key under which an array holds an element.\<close>

fun decimal :: "nat \<Rightarrow> string" where
  "decimal n = (if n < 10 then [char_of (48 + n)]
                else decimal (n div 10) @ [char_of (48 + n mod 10)])"

declare decimal.simps [simp del]

text \<open>
  The own enumerable properties of a value: those of an object, the elements of an array
  under their indices. \<^verbatim>\<open>Object.keys\<close> and \<^verbatim>\<open>Object.values\<close> are the two projections.
\<close>

fun own_entries :: "jsval \<Rightarrow> (string \<times> jsval) list" where
  "own_entries (JObj kvs) = kvs"
| "own_entries (JArr xs) = zip (map decimal [0..<length xs]) xs"
| "own_entries v = []"

text \<open>
  \<^verbatim>\<open>v[k]\<close> for a key \<open>k\<close> that no prototype defines (the source reads \<^verbatim>\<open>json\<close> and keys
  that \<^verbatim>\<open>Object.keys\<close> returned): reading a property of \<^verbatim>\<open>null\<close> or \<^verbatim>\<open>undefined\<close>
  throws a TypeError, a property that is absent reads \<^verbatim>\<open>undefined\<close>.
\<close>

fun get_prop :: "jsval \<Rightarrow> string \<Rightarrow> js_error + jsval" where
  "get_prop JUndefined k = Inl TypeError"
| "get_prop JNull k = Inl TypeError"
| "get_prop v k = Inr (case map_of (own_entries v) k of Some w \<Rightarrow> w | None \<Rightarrow> JUndefined)"

text \<open>
  \<^verbatim>\<open>s.trim()\<close> removes white space and line terminators at both ends; among the code
  units below 256 these are 9 to 13, 32 and 160.
\<close>

definition is_space :: "char \<Rightarrow> bool" where
  "is_space c = (of_char c \<in> {9, 10, 11, 12, 13, 32, 160 :: nat})"

definition trim :: "string \<Rightarrow> string" where
  "trim s = rev (dropWhile is_space (rev (dropWhile is_space s)))"

text \<open>\<^verbatim>\<open>s.toLowerCase()\<close> on code units below 256: A to Z and the accented capitals.\<close>

definition toLowerCase_char :: "char \<Rightarrow> char" where
  "toLowerCase_char c =
     (let n = (of_char c :: nat)
      in if (65 \<le> n \<and> n \<le> 90) \<or> (192 \<le> n \<and> n \<le> 222 \<and> n \<noteq> 215)
         then char_of (n + 32) else c)"

definition toLowerCase :: "string \<Rightarrow> string" where
  "toLowerCase s = map toLowerCase_char s"

text \<open>\<^verbatim>\<open>s.includes(t)\<close>: \<open>t\<close> occurs in \<open>s\<close> as a contiguous substring.\<close>

fun includes_str :: "string \<Rightarrow> string \<Rightarrow> bool" where
  "includes_str [] t = (t = [])"
| "includes_str (c # cs) t = (startsWith (c # cs) t \<or> includes_str cs t)"

section \<open>Garment categories and the gender filter\<close>

text \<open>\<^verbatim>\<open>interface GarmentCategoryInfo { key: string; name: string; }\<close>\<close>

record GarmentCategoryInfo =
  key :: string
  name :: string

text \<open>The property \<^verbatim>\<open>gender: 'male' | 'female'\<close> of the component SizeRecommendations.\<close>

datatype gender = male | female

text \<open>
  The filter of \<^verbatim>\<open>fetchCategories\<close> (SizeRecommendations.tsx):
  \<^verbatim>\<open>data.filter(cat => { if (gender === 'male') return cat.key.startsWith('MENS_');
     else return cat.key.startsWith('WOMENS_') || cat.key === 'DRESS'; })\<close>
\<close>

definition fetchCategories_filter :: "gender \<Rightarrow> GarmentCategoryInfo list \<Rightarrow> GarmentCategoryInfo list" where
  "fetchCategories_filter g data =
     filter (\<lambda>cat. if g = male then startsWith (key cat) ''MENS_''
                   else startsWith (key cat) ''WOMENS_'' \<or> key cat = ''DRESS'') data"

text \<open>
  The filter of \<^verbatim>\<open>loadGarmentCategories\<close> (size_recommendations.js). The gender is the
  value of a select element, any string; a value other than \<^verbatim>\<open>'male'\<close> and
  \<^verbatim>\<open>'female'\<close> keeps every category.
\<close>

definition loadGarmentCategories_filter :: "string \<Rightarrow> GarmentCategoryInfo list \<Rightarrow> GarmentCategoryInfo list" where
  "loadGarmentCategories_filter selectedGender allCategories =
     filter (\<lambda>category.
        if selectedGender = ''male'' then startsWith (key category) ''MENS_''
        else if selectedGender = ''female''
          then startsWith (key category) ''WOMENS_'' \<or> key category = ''DRESS''
        else True) allCategories"

section \<open>The selection of clothes in the try-on studio\<close>

text \<open>
  \<^verbatim>\<open>interface ClothItem { id: string; title: string; brand: string; category: string;
  image: string; }\<close> The field \<^verbatim>\<open>id\<close> is named \<open>id_cloth\<close> here.
\<close>

record ClothItem =
  id_cloth :: string
  title :: string
  brand :: string
  category :: string
  image :: string

text \<open>
  The updater that \<^verbatim>\<open>handleToggleCloth(item)\<close> passes to \<^verbatim>\<open>setSelectedClothes\<close>:
  \<^verbatim>\<open>prev => { const isSelected = prev.find(i => i.id === item.id);
     if (isSelected) return prev.filter(i => i.id !== item.id);
     else return [...prev, item]; }\<close>
  What \<^verbatim>\<open>find\<close> returns is an element of the list, an object, which is truthy.
\<close>

definition handleToggleCloth :: "ClothItem \<Rightarrow> ClothItem list \<Rightarrow> ClothItem list" where
  "handleToggleCloth item prev =
     (case find (\<lambda>i. id_cloth i = id_cloth item) prev of
        Some isSelected \<Rightarrow> filter (\<lambda>i. id_cloth i \<noteq> id_cloth item) prev
      | None \<Rightarrow> prev @ [item])"

section \<open>The image link of a webhook response\<close>

text \<open>
  \<^verbatim>\<open>result.replace(/^["']|["']$/g, '')\<close>: one quote character at the start and one at
  the end are removed, where present.
\<close>

definition is_quote :: "char \<Rightarrow> bool" where
  "is_quote c = (c = CHR 0x22 \<or> c = CHR 0x27)"

definition strip_quotes :: "string \<Rightarrow> string" where
  "strip_quotes s =
     (let s1 = (case s of [] \<Rightarrow> [] | c # cs \<Rightarrow> if is_quote c then cs else s)
      in if s1 \<noteq> [] \<and> is_quote (last s1) then butlast s1 else s1)"

text \<open>
  The test of \<^verbatim>\<open>keys.find\<close>:
  \<^verbatim>\<open>k => ['avatar_url', 'output_image', 'image_url', 'url', 'output', 'result']
     .includes(k.toLowerCase()) || k.toLowerCase().includes('url')
     || k.toLowerCase().includes('avatar')\<close>
\<close>

definition is_url_key :: "string \<Rightarrow> bool" where
  "is_url_key k =
     (toLowerCase k \<in> set [''avatar_url'', ''output_image'', ''image_url'', ''url'',
                             ''output'', ''result'']
      \<or> includes_str (toLowerCase k) ''url''
      \<or> includes_str (toLowerCase k) ''avatar'')"

text \<open>
  The test on a value, used twice:
  \<^verbatim>\<open>typeof v === 'string' && (v.startsWith('http') || v.startsWith('data:'))\<close>
\<close>

definition is_image_link :: "jsval \<Rightarrow> bool" where
  "is_image_link v =
     (case v of JStr s \<Rightarrow> startsWith s ''http'' \<or> startsWith s ''data:'' | _ \<Rightarrow> False)"

text \<open>
  First step of \<^verbatim>\<open>extractImageUrl\<close>:
  \<^verbatim>\<open>if (Array.isArray(data) && data.length > 0) data = data[0].json || data[0];\<close>
\<close>

definition unwrap_first :: "jsval \<Rightarrow> js_error + jsval" where
  "unwrap_first data =
     (case data of
        JArr (x # xs) \<Rightarrow>
          (case get_prop x ''json'' of
             Inl e \<Rightarrow> Inl e
           | Inr j \<Rightarrow> Inr (if truthy j then j else x))
      | _ \<Rightarrow> Inr data)"

text \<open>
  Second step:
  \<^verbatim>\<open>if (typeof data === 'string' && data.trim().startsWith('{'))
     { try { data = JSON.parse(data); } catch (e) {} }\<close>
  \<open>JSON_parse\<close> is the host's \<^verbatim>\<open>JSON.parse\<close>, \<open>None\<close> where it throws.
\<close>

definition parse_if_json :: "(string \<Rightarrow> jsval option) \<Rightarrow> jsval \<Rightarrow> jsval" where
  "parse_if_json JSON_parse data =
     (case data of
        JStr s \<Rightarrow>
          (if startsWith (trim s) ''{''
           then (case JSON_parse s of Some v \<Rightarrow> v | None \<Rightarrow> data)
           else data)
      | _ \<Rightarrow> data)"

text \<open>
  Third step, the candidate \<^verbatim>\<open>result\<close>: the string itself; for an object (an array is
  one) the value under the first key that \<open>is_url_key\<close> accepts, or else the first value that
  is an image link, \<^verbatim>\<open>undefined\<close> when there is none; \<^verbatim>\<open>null\<close> for anything else.
\<close>

definition find_in_object :: "jsval \<Rightarrow> jsval" where
  "find_in_object data =
     (let keys = map fst (own_entries data);
          by_value = (case find is_image_link (map snd (own_entries data)) of
                        Some v \<Rightarrow> v | None \<Rightarrow> JUndefined)
      in case find is_url_key keys of
           Some urlKey \<Rightarrow>
             (if urlKey \<noteq> []
              then (case map_of (own_entries data) urlKey of Some w \<Rightarrow> w | None \<Rightarrow> JUndefined)
              else by_value)
         | None \<Rightarrow> by_value)"

fun candidate :: "jsval \<Rightarrow> jsval" where
  "candidate (JStr s) = JStr s"
| "candidate (JObj kvs) = find_in_object (JObj kvs)"
| "candidate (JArr xs) = find_in_object (JArr xs)"
| "candidate v = JNull"

text \<open>
  Last step:
  \<^verbatim>\<open>if (result && typeof result === 'string'
        && (result.startsWith('http') || result.startsWith('data:')))
     return result.trim().replace(/^["']|["']$/g, '');
   return null;\<close>
\<close>

definition finish :: "jsval \<Rightarrow> string option" where
  "finish result =
     (case result of
        JStr r \<Rightarrow>
          (if truthy result \<and> (startsWith r ''http'' \<or> startsWith r ''data:'')
           then Some (strip_quotes (trim r)) else None)
      | _ \<Rightarrow> None)"

text \<open>\<^verbatim>\<open>extractImageUrl\<close> (VirtualTryOnStudio): the four steps in turn.\<close>

definition extractImageUrl ::
    "(string \<Rightarrow> jsval option) \<Rightarrow> jsval \<Rightarrow> js_error + string option" where
  "extractImageUrl JSON_parse data =
     (case unwrap_first data of
        Inl e \<Rightarrow> Inl e
      | Inr data1 \<Rightarrow> Inr (finish (candidate (parse_if_json JSON_parse data1))))"

section \<open>The upload form of the measurement page\<close>

text \<open>
  Of a \<^verbatim>\<open>File\<close> the page reads \<^verbatim>\<open>type\<close> and \<^verbatim>\<open>size\<close>, a number of bytes. The second
  argument of the handlers is \<^verbatim>\<open>'front'\<close> or \<^verbatim>\<open>'side'\<close>.
\<close>

record File_js =
  type_file :: string
  size_file :: nat

datatype slot = front | side

text \<open>
  The object \<^verbatim>\<open>state\<close> of script.js (its image fields) and the properties of the
  elements that the upload handlers read and write.
\<close>

record page =
  state_frontImage :: "File_js option"
  state_sideImage :: "File_js option"
  state_frontImageData :: "string option"
  state_sideImageData :: "string option"
  frontPreview_src :: string
  frontPreview_display :: string
  frontPlaceholder_display :: string
  frontRemove_display :: string
  sidePreview_src :: string
  sidePreview_display :: string
  sidePlaceholder_display :: string
  sideRemove_display :: string
  heightInput_value :: string
  calculateBtn_disabled :: bool
  errorText :: string
  errorMessage_display :: string

definition showError :: "string \<Rightarrow> page \<Rightarrow> page" where
  "showError msg p = p\<lparr>errorText := msg, errorMessage_display := ''flex''\<rparr>"

definition hideError :: "page \<Rightarrow> page" where
  "hideError p = p\<lparr>errorMessage_display := ''none''\<rparr>"

text \<open>
  \<^verbatim>\<open>validateForm\<close>:
  \<^verbatim>\<open>const hasFrontImage = state.frontImageData !== null;
   const hasHeight = elements.heightInput.value && parseFloat(elements.heightInput.value) > 0;
   elements.calculateBtn.disabled = !(hasFrontImage && hasHeight);\<close>
  \<open>height_number\<close> is what the host's \<^verbatim>\<open>parseFloat\<close> makes of the height text.
\<close>

definition validateForm :: "jsnum \<Rightarrow> page \<Rightarrow> page" where
  "validateForm height_number p =
     (let hasFrontImage = (state_frontImageData p \<noteq> None);
          hasHeight = (heightInput_value p \<noteq> [] \<and> js_gt height_number 0)
      in p\<lparr>calculateBtn_disabled := \<not> (hasFrontImage \<and> hasHeight)\<rparr>)"

definition validTypes :: "string list" where
  "validTypes = [''image/jpeg'', ''image/jpg'', ''image/png'']"

definition maxSize :: nat where
  "maxSize = 10 * 1024 * 1024"

text \<open>
  \<^verbatim>\<open>processFile(file, type)\<close>: the two checks, each of which shows an error and returns;
  then a reader is started on the file. The second component of the result is the read
  that was started, with the file and the slot that its \<^verbatim>\<open>onload\<close> handler holds.
\<close>

definition processFile :: "File_js \<Rightarrow> slot \<Rightarrow> page \<Rightarrow> page \<times> (File_js \<times> slot) option" where
  "processFile file typ p =
     (if type_file file \<notin> set validTypes
        then (showError ''Please upload a JPEG or PNG image'' p, None)
      else if size_file file > maxSize
        then (showError ''Image size must be less than 10MB'' p, None)
      else (p, Some (file, typ)))"

text \<open>
  The handler \<^verbatim>\<open>reader.onload\<close> of a read that \<open>processFile\<close> started, run when the read has
  produced the data URL \<open>imageData\<close>: it stores the file and the data in the slot, shows the
  preview, then calls \<^verbatim>\<open>validateForm()\<close> and \<^verbatim>\<open>hideError()\<close>.
\<close>

definition reader_onload :: "jsnum \<Rightarrow> File_js \<times> slot \<Rightarrow> string \<Rightarrow> page \<Rightarrow> page" where
  "reader_onload height_number started imageData p =
     (let file = fst started;
          p1 = (case snd started of
                  front \<Rightarrow> p\<lparr>state_frontImage := Some file,
                              state_frontImageData := Some imageData,
                              frontPreview_src := imageData,
                              frontPreview_display := ''block'',
                              frontPlaceholder_display := ''none'',
                              frontRemove_display := ''flex''\<rparr>
                | side \<Rightarrow> p\<lparr>state_sideImage := Some file,
                             state_sideImageData := Some imageData,
                             sidePreview_src := imageData,
                             sidePreview_display := ''block'',
                             sidePlaceholder_display := ''none'',
                             sideRemove_display := ''flex''\<rparr>)
      in hideError (validateForm height_number p1))"

section \<open>The measurement form of the component TryOn\<close>

datatype units = metric | imperial

text \<open>
  \<^verbatim>\<open>interface MeasurementRequest\<close> and \<^verbatim>\<open>interface MeasurementResponse\<close> of the API
  module, as they travel: a field that is null or left out is \<open>None\<close> (the static page
  sends \<^verbatim>\<open>front_image: state.frontImageData\<close>, which may be null, and a response that
  failed carries no measurements). The state of the component has fields of the same names
  as the request; those of the request carry a suffix.
\<close>

record MeasurementRequest =
  front_image :: "string option"
  side_image :: "string option"
  calibration_height :: jsnum
  units_req :: units
  gender_req :: gender

record measurements =
  shoulder_width :: "real option"
  chest :: "real option"
  waist :: "real option"
  hip :: "real option"
  height_m :: "real option"
  inseam :: "real option"
  units_m :: string

record MeasurementResponse =
  success :: bool
  measurements_of :: "measurements option"
  front_landmarks :: "jsval option"
  side_landmarks :: "jsval option"
  message :: "string option"

text \<open>
  What \<^verbatim>\<open>await measurementApi.calculate(...)\<close> does: it resolves with a response, or it
  throws, with \<^verbatim>\<open>err.response?.data?.detail\<close> if there is one.
\<close>

datatype api_outcome = Resolved MeasurementResponse | Failed "string option"

text \<open>The state of the component TryOn (\<^verbatim>\<open>useState\<close>).\<close>

record tryon_state =
  frontImage :: "string option"
  sideImage :: "string option"
  height :: string
  units :: units
  gender :: gender
  loading :: bool
  error :: "string option"
  results :: "MeasurementResponse option"
  showRecommendations :: bool

text \<open>\<^verbatim>\<open>a || b\<close> on an optional string: the empty string is falsy, as null is.\<close>

definition or_else :: "string option \<Rightarrow> string \<Rightarrow> string" where
  "or_else a b = (case a of None \<Rightarrow> b | Some t \<Rightarrow> if t = [] then b else t)"

text \<open>
  \<^verbatim>\<open>calculateMeasurements\<close> of TryOn.tsx. \<open>height_number\<close> is what the host's \<^verbatim>\<open>Number\<close>
  makes of the text \<open>height\<close>, \<open>api\<close> what \<^verbatim>\<open>measurementApi.calculate\<close> does with a
  request. The result is the state when the handler has finished, and the requests it has
  sent.
  \<^verbatim>\<open>if (!frontImage) { setError('Front image is required'); return; }
   if (!height || Number(height) <= 0) { setError('Please enter a valid height'); return; }
   setLoading(true); setError(null);
   try { const data = await measurementApi.calculate({...});
         if (data.success) setResults(data);
         else setError(data.message || 'Failed to calculate measurements'); }
   catch (err) { setError(err.response?.data?.detail || 'An error occurred during calculation'); }
   finally { setLoading(false); }\<close>
\<close>

definition calculateMeasurements ::
    "jsnum \<Rightarrow> (MeasurementRequest \<Rightarrow> api_outcome) \<Rightarrow> tryon_state
      \<Rightarrow> tryon_state \<times> MeasurementRequest list" where
  "calculateMeasurements height_number api st =
     (case frontImage st of
        None \<Rightarrow> (st\<lparr>error := Some ''Front image is required''\<rparr>, [])
      | Some img \<Rightarrow>
          if img = [] then (st\<lparr>error := Some ''Front image is required''\<rparr>, [])
          else if height st = [] \<or> js_le height_number 0
            then (st\<lparr>error := Some ''Please enter a valid height''\<rparr>, [])
          else
            let request = \<lparr>front_image = Some img, side_image = sideImage st,
                            calibration_height = height_number,
                            units_req = units st, gender_req = gender st\<rparr>;
                st1 = st\<lparr>loading := True, error := None\<rparr>;
                st2 = (case api request of
                         Resolved data \<Rightarrow>
                           if success data then st1\<lparr>results := Some data\<rparr>
                           else st1\<lparr>error :=
                                  Some (or_else (message data) ''Failed to calculate measurements'')\<rparr>
                       | Failed detail \<Rightarrow>
                           st1\<lparr>error :=
                                 Some (or_else detail ''An error occurred during calculation'')\<rparr>)
            in (st2\<lparr>loading := False\<rparr>, [request]))"

section \<open>The skeleton overlay\<close>

text \<open>
  A landmark of the response, \<^verbatim>\<open>{x, y, visibility}\<close>; the coordinates are named \<open>lm_x\<close> and
  \<open>lm_y\<close> here.
\<close>

record landmark =
  lm_x :: real
  lm_y :: real
  visibility :: real

text \<open>What \<^verbatim>\<open>drawSkeleton\<close> puts on the canvas, 600 wide and 800 high, in order.\<close>

datatype canvas_op =
    FillRect real real real real
  | Line real real real real
  | Arc real real real

text \<open>\<^verbatim>\<open>xs[i]\<close>, which is \<^verbatim>\<open>undefined\<close> beyond the end of the array.\<close>

definition at_index :: "'a list \<Rightarrow> nat \<Rightarrow> 'a option" where
  "at_index xs i = (if i < length xs then Some (xs ! i) else None)"

definition connections :: "(nat \<times> nat) list" where
  "connections =
     [(11, 12), (11, 13), (13, 15), (12, 14), (14, 16), (11, 23), (12, 24), (23, 24),
      (23, 25), (25, 27), (24, 26), (26, 28)]"

text \<open>
  The body of \<^verbatim>\<open>connections.forEach\<close>:
  \<^verbatim>\<open>if (landmarks[start] && landmarks[end]) { ...
     if (startLm.visibility > 0.5 && endLm.visibility > 0.5) { moveTo; lineTo; stroke } }\<close>
\<close>

definition draw_connection :: "landmark list \<Rightarrow> nat \<times> nat \<Rightarrow> canvas_op list" where
  "draw_connection landmarks c =
     (case at_index landmarks (fst c) of
        None \<Rightarrow> []
      | Some startLm \<Rightarrow>
          (case at_index landmarks (snd c) of
             None \<Rightarrow> []
           | Some endLm \<Rightarrow>
               if visibility startLm > 0.5 \<and> visibility endLm > 0.5
               then [Line (lm_x startLm * 600) (lm_y startLm * 800)
                          (lm_x endLm * 600) (lm_y endLm * 800)]
               else []))"

text \<open>
  The body of \<^verbatim>\<open>landmarks.forEach\<close>:
  \<^verbatim>\<open>if (lm.visibility > 0.5) { arc(lm.x * canvas.width, lm.y * canvas.height, 5, ...); fill }\<close>
\<close>

definition draw_landmark :: "landmark \<Rightarrow> canvas_op list" where
  "draw_landmark lm =
     (if visibility lm > 0.5 then [Arc (lm_x lm * 600) (lm_y lm * 800) 5] else [])"

definition drawSkeleton :: "landmark list \<Rightarrow> canvas_op list" where
  "drawSkeleton landmarks =
     FillRect 0 0 600 800
       # concat (map (draw_connection landmarks) connections)
       @ concat (map draw_landmark landmarks)"

section \<open>The size-fit engine\<close>

text \<open>
  The sources hold the two clients of the engine; the engine itself runs on the server,
  and its code is not among them. The pages read the first element of the list of
  recommendations as the best fit (\<^verbatim>\<open>const bestFit = data.recommendations[0]\<close> in
  \<^verbatim>\<open>displayBestSizeUnderPoseDetection\<close>, after a test that the list is not empty, and
  \<^verbatim>\<open>recommendation.recommendations[0]?.size\<close> in the component).
\<close>

definition bestFit :: "'a list \<Rightarrow> 'a option" where
  "bestFit recs = (case recs of [] \<Rightarrow> None | r # rest \<Rightarrow> Some r)"

text \<open>
  Modelled from the spec: the six measurements of a profile (section 3); the type that
  names them is part of the server.
\<close>

datatype measurement_kind = ShoulderWidth | Chest | Waist | Hip | Height | Inseam

text \<open>
  Modelled from the spec: a size band of the catalog (section 3), a size label with the
  range \<open>(min, max)\<close> of each measurement relevant to the category; the catalog is part of
  the server.
\<close>

record SizeBand =
  size_label :: string
  band_ranges :: "(measurement_kind \<times> real \<times> real) list"

text \<open>
  Modelled from the spec: a size recommendation (section 3), built by the server. Its fit
  category and its analysis texts play no part in the score or in the order and are left
  out; the field \<open>size\<close> is named \<open>size_rec\<close> here.
\<close>

record SizeRecommendation =
  size_rec :: string
  fit_score :: real

text \<open>
  Modelled from the spec: the response of the recommendation assembler (section 3), the
  category key echoed back, the display name of the catalog, and the recommendations.
\<close>

record RecommendationResponse =
  garment_category :: string
  garment_name :: string
  recommendations :: "SizeRecommendation list"

text \<open>Modelled from the spec: the failure states of the pipeline (section 4.7), raised by the server.\<close>

datatype failure = ValidationError | PoseDetectionFailure | CalibrationError | CategoryNotFound

text \<open>
  Modelled from the spec: step 1 of the scorer (section 4.6), the normalized deviation
  \<open>d = (actual - center) / halfwidth\<close> with \<open>center = (min + max) / 2\<close> and
  \<open>halfwidth = (max - min) / 2\<close>. For a range with \<open>max = min\<close> the spec gives no
  deviation; the quotient is then the one of the reals in HOL, zero, and no property below
  depends on its value.
\<close>

definition deviation :: "real \<Rightarrow> real \<Rightarrow> real \<Rightarrow> real" where
  "deviation actual lo hi = (actual - (lo + hi) / 2) / ((hi - lo) / 2)"

text \<open>
  Modelled from the spec: step 2 of the scorer (section 4.6), the root mean square of the
  deviations of the relevant measurements, of which a band has one to three.
\<close>

definition aggregate_deviation :: "real list \<Rightarrow> real" where
  "aggregate_deviation ds = sqrt (sum_list (map (\<lambda>d. d\<^sup>2) ds) / real (length ds))"

text \<open>Modelled from the spec: the \<open>clamp\<close> of step 3 of the scorer (section 4.6).\<close>

definition clamp :: "real \<Rightarrow> real \<Rightarrow> real \<Rightarrow> real" where
  "clamp v lo hi = (if v < lo then lo else if hi < v then hi else v)"

text \<open>
  Modelled from the spec: the scorer on one band (section 4.6, steps 1 to 3),
  \<open>fit_score = clamp(1 - aggregate_deviation, 0, 1)\<close>. \<open>actual\<close> gives the profile's value of
  each measurement that the band ranges over.
\<close>

definition score_band :: "(measurement_kind \<Rightarrow> real) \<Rightarrow> SizeBand \<Rightarrow> SizeRecommendation" where
  "score_band actual band =
     \<lparr>size_rec = size_label band,
      fit_score = clamp (1 - aggregate_deviation
                     (map (\<lambda>(m, lo, hi). deviation (actual m) lo hi) (band_ranges band))) 0 1\<rparr>"

text \<open>
  Modelled from the spec: the order of the assembler (section 4.7), by fit score
  descending. A recommendation goes in front of the first one whose score is not greater,
  so that of two bands with the same score the one that comes first in the catalog, the
  smaller size, stays first (the tie-break of section 4.6).
\<close>

fun insert_by_score :: "SizeRecommendation \<Rightarrow> SizeRecommendation list \<Rightarrow> SizeRecommendation list" where
  "insert_by_score r [] = [r]"
| "insert_by_score r (x # xs) =
     (if fit_score x \<le> fit_score r then r # x # xs else x # insert_by_score r xs)"

text \<open>Modelled from the spec: the sort of the assembler (section 4.7), over all evaluated bands.\<close>

definition rank_by_score :: "SizeRecommendation list \<Rightarrow> SizeRecommendation list" where
  "rank_by_score recs = foldr insert_by_score recs []"

text \<open>
  Modelled from the spec: the recommendation stage (sections 4.5 to 4.7). The catalog maps
  a category key to its display name and its bands, ordered from the smallest size to the
  largest; an unknown key fails with \<open>CategoryNotFound\<close>; otherwise every band is scored and
  the scored bands are packaged in order, with the display name and the key echoed back.
\<close>

definition recommend ::
  "(string \<rightharpoonup> string \<times> SizeBand list) \<Rightarrow> (measurement_kind \<Rightarrow> real) \<Rightarrow> string
     \<Rightarrow> failure + RecommendationResponse" where
  "recommend catalog actual category_key =
     (case catalog category_key of
        None \<Rightarrow> Inl CategoryNotFound
      | Some (display_name, bands) \<Rightarrow>
          Inr \<lparr>garment_category = category_key, garment_name = display_name,
               recommendations = rank_by_score (map (score_band actual) bands)\<rparr>)"

text \<open>A list of recommendations whose fit scores do not increase.\<close>

abbreviation non_increasing :: "SizeRecommendation list \<Rightarrow> bool" where
  "non_increasing \<equiv> sorted_wrt (\<lambda>a b. fit_score b \<le> fit_score a)"

section \<open>The measurement service\<close>

text \<open>
  Modelled from the spec: the validation of a measurement request (sections 6 and 7), done
  by the server, whose code is not among the sources. The front image is required and the
  calibration height is a positive number; a request without the one or the other is a
  \<open>ValidationError\<close> (malformed or missing required fields, height at most zero).
\<close>

definition validate_request :: "MeasurementRequest \<Rightarrow> failure option" where
  "validate_request req =
     (if front_image req = None \<or> \<not> js_gt (calibration_height req) 0
      then Some ValidationError else None)"

text \<open>
  Modelled from the spec: the response to a failure (sections 4.7 and 7), \<open>success=false\<close>
  with a message and no measurement profile.
\<close>

definition failure_response :: "string \<Rightarrow> MeasurementResponse" where
  "failure_response msg =
     \<lparr>success = False, measurements_of = None, front_landmarks = None,
      side_landmarks = None, message = Some msg\<rparr>"

text \<open>
  Modelled from the spec: the endpoint of the server that calculates measurements. A
  validation error is returned immediately; only a request that passes goes on to the
  stages that compute, \<open>pipeline\<close>. The wording of the message, \<open>msg\<close>, is not fixed by the
  spec.
\<close>

definition measurement_service ::
    "string \<Rightarrow> (MeasurementRequest \<Rightarrow> MeasurementResponse) \<Rightarrow> MeasurementRequest
      \<Rightarrow> MeasurementResponse" where
  "measurement_service msg pipeline req =
     (case validate_request req of
        Some f \<Rightarrow> failure_response msg
      | None \<Rightarrow> pipeline req)"

section \<open>Properties\<close>

subsection \<open>Strings\<close>

lemma startsWith_iff_append: "startsWith s p \<longleftrightarrow> (\<exists>r. s = p @ r)"
proof
  assume "startsWith s p"
  then have "s = p @ drop (length p) s"
    unfolding startsWith_def by (metis append_take_drop_id)
  then show "\<exists>r. s = p @ r" ..
next
  assume "\<exists>r. s = p @ r"
  then show "startsWith s p"
    unfolding startsWith_def by auto
qed

subsection \<open>The gender filter\<close>

text \<open>
  Claim C2. For every list of categories, the filter keeps, in their order, exactly the
  categories whose key begins with \<open>MENS_\<close> when the gender is male, and exactly those
  whose key begins with \<open>WOMENS_\<close> or is \<open>DRESS\<close> when the gender is female; this holds
  of the filter of the component and of the filter of the static page.
\<close>

theorem gender_filter_exact:
  "fetchCategories_filter male cats = filter (\<lambda>c. \<exists>r. key c = ''MENS_'' @ r) cats
   \<and> fetchCategories_filter female cats
       = filter (\<lambda>c. (\<exists>r. key c = ''WOMENS_'' @ r) \<or> key c = ''DRESS'') cats
   \<and> loadGarmentCategories_filter ''male'' cats = filter (\<lambda>c. \<exists>r. key c = ''MENS_'' @ r) cats
   \<and> loadGarmentCategories_filter ''female'' cats
       = filter (\<lambda>c. (\<exists>r. key c = ''WOMENS_'' @ r) \<or> key c = ''DRESS'') cats"
  unfolding fetchCategories_filter_def loadGarmentCategories_filter_def
  by (simp add: startsWith_iff_append)

subsection \<open>Toggling a cloth\<close>

lemma find_None_id: "find (\<lambda>i. id_cloth i = k) xs = None \<longleftrightarrow> k \<notin> id_cloth ` set xs"
  by (induction xs) auto

lemma toggle_selected:
  assumes "id_cloth item \<in> id_cloth ` set prev"
  shows "handleToggleCloth item prev = filter (\<lambda>i. id_cloth i \<noteq> id_cloth item) prev"
proof -
  from assms have "find (\<lambda>i. id_cloth i = id_cloth item) prev \<noteq> None"
    by (simp add: find_None_id)
  then show ?thesis
    unfolding handleToggleCloth_def by (auto split: option.splits)
qed

lemma toggle_unselected:
  assumes "id_cloth item \<notin> id_cloth ` set prev"
  shows "handleToggleCloth item prev = prev @ [item]"
proof -
  from assms have "find (\<lambda>i. id_cloth i = id_cloth item) prev = None"
    by (simp add: find_None_id)
  then show ?thesis
    unfolding handleToggleCloth_def by simp
qed

lemma toggle_ids:
  "id_cloth ` set (handleToggleCloth item prev) =
     (if id_cloth item \<in> id_cloth ` set prev
      then id_cloth ` set prev - {id_cloth item}
      else insert (id_cloth item) (id_cloth ` set prev))"
proof (cases "id_cloth item \<in> id_cloth ` set prev")
  case True
  then show ?thesis by (auto simp: toggle_selected)
next
  case False
  then show ?thesis by (auto simp: toggle_unselected)
qed

text \<open>
  Claim C10. For every selection and every item, the updater of \<open>handleToggleCloth\<close>
  negates the membership of the item's id, leaves the membership of every element with
  another id as it was, and applied twice gives back the set of selected ids.
\<close>

theorem handleToggleCloth_toggles:
  "(id_cloth item \<in> id_cloth ` set (handleToggleCloth item prev))
      = (id_cloth item \<notin> id_cloth ` set prev)
   \<and> (\<forall>x. id_cloth x \<noteq> id_cloth item \<longrightarrow>
         (x \<in> set (handleToggleCloth item prev)) = (x \<in> set prev))
   \<and> id_cloth ` set (handleToggleCloth item (handleToggleCloth item prev))
      = id_cloth ` set prev"
proof (intro conjI allI impI)
  show "(id_cloth item \<in> id_cloth ` set (handleToggleCloth item prev))
      = (id_cloth item \<notin> id_cloth ` set prev)"
    by (simp add: toggle_ids)
next
  fix x :: ClothItem assume "id_cloth x \<noteq> id_cloth item"
  then show "(x \<in> set (handleToggleCloth item prev)) = (x \<in> set prev)"
    by (cases "id_cloth item \<in> id_cloth ` set prev")
       (auto simp: toggle_selected toggle_unselected)
next
  show "id_cloth ` set (handleToggleCloth item (handleToggleCloth item prev))
      = id_cloth ` set prev"
    by (auto simp: toggle_ids split: if_splits)
qed

theorem handleToggleCloth_toggles_witness:
  "id_cloth \<lparr>id_cloth = ''14'', title = ''Classic Black Formal Suit'', brand = ''Aristocrat'',
       category = ''Formal'', image = ''/black-formal-suit.png''\<rparr>
     \<noteq> id_cloth \<lparr>id_cloth = ''15'', title = ''Casual Autumn Combo'', brand = ''Metro vibe'',
       category = ''Casual'', image = ''/mustard-jacket-outfit.jpg''\<rparr>
   \<and> \<lparr>id_cloth = ''14'', title = ''Classic Black Formal Suit'', brand = ''Aristocrat'',
       category = ''Formal'', image = ''/black-formal-suit.png''\<rparr>
     \<in> set (handleToggleCloth
         \<lparr>id_cloth = ''15'', title = ''Casual Autumn Combo'', brand = ''Metro vibe'',
          category = ''Casual'', image = ''/mustard-jacket-outfit.jpg''\<rparr>
         [\<lparr>id_cloth = ''14'', title = ''Classic Black Formal Suit'', brand = ''Aristocrat'',
           category = ''Formal'', image = ''/black-formal-suit.png''\<rparr>])"
  using handleToggleCloth_toggles
    [of "\<lparr>id_cloth = ''15'', title = ''Casual Autumn Combo'', brand = ''Metro vibe'',
          category = ''Casual'', image = ''/mustard-jacket-outfit.jpg''\<rparr>"
        "[\<lparr>id_cloth = ''14'', title = ''Classic Black Formal Suit'', brand = ''Aristocrat'',
           category = ''Formal'', image = ''/black-formal-suit.png''\<rparr>]"]
  by simp

subsection \<open>The image link of a webhook response\<close>

lemma trim_keeps_prefix:
  assumes "p \<noteq> []" "\<not> is_space (hd p)" "\<not> is_space (last p)"
  shows "trim (p @ r) = p @ rev (dropWhile is_space (rev r))"
proof -
  from assms obtain c cs where p: "p = c # cs" by (cases p) auto
  with assms have "dropWhile is_space (p @ r) = p @ r" by simp
  moreover have "dropWhile is_space (rev r @ rev p) = dropWhile is_space (rev r) @ rev p"
  proof (cases "\<forall>x\<in>set (rev r). is_space x")
    case True
    have "dropWhile is_space (rev p) = rev p"
      using assms by (cases "rev p") (auto simp: last_rev hd_rev)
    moreover from True have "dropWhile is_space (rev r @ rev p) = dropWhile is_space (rev p)"
      by (intro dropWhile_append2) simp
    moreover from True have "dropWhile is_space (rev r) = []"
      by simp
    ultimately show ?thesis by simp
  next
    case False
    then obtain x where "x \<in> set (rev r)" "\<not> is_space x" by blast
    then show ?thesis by (rule dropWhile_append1)
  qed
  ultimately show ?thesis unfolding trim_def by simp
qed

lemma strip_quotes_keeps_prefix:
  assumes "p \<noteq> []" "\<not> is_quote (hd p)" "\<not> is_quote (last p)"
  shows "\<exists>r'. strip_quotes (p @ r) = p @ r'"
proof -
  from assms obtain c cs where p: "p = c # cs" by (cases p) auto
  show ?thesis
  proof (cases "r = []")
    case True
    with assms p show ?thesis unfolding strip_quotes_def by (auto simp: Let_def)
  next
    case False
    then have "butlast (p @ r) = p @ butlast r" by (simp add: butlast_append)
    with assms p False show ?thesis unfolding strip_quotes_def by (auto simp: Let_def)
  qed
qed

lemma cleaned_startsWith:
  assumes "startsWith r p" "p \<noteq> []"
    "\<not> is_space (hd p)" "\<not> is_space (last p)" "\<not> is_quote (hd p)" "\<not> is_quote (last p)"
  shows "startsWith (strip_quotes (trim r)) p"
proof -
  from assms(1) obtain t where "r = p @ t" by (auto simp: startsWith_iff_append)
  then have "trim r = p @ rev (dropWhile is_space (rev t))"
    using assms by (simp add: trim_keeps_prefix)
  then obtain t' where "strip_quotes (trim r) = p @ t'"
    using strip_quotes_keeps_prefix [OF assms(2) assms(5) assms(6)] by metis
  then show ?thesis by (auto simp: startsWith_iff_append)
qed

lemma http_clean: "startsWith r ''http'' \<Longrightarrow> startsWith (strip_quotes (trim r)) ''http''"
  by (rule cleaned_startsWith) (simp_all add: is_space_def is_quote_def)

lemma data_clean: "startsWith r ''data:'' \<Longrightarrow> startsWith (strip_quotes (trim r)) ''data:''"
  by (rule cleaned_startsWith) (simp_all add: is_space_def is_quote_def)

lemma finish_Some:
  assumes "finish result = Some s"
  shows "\<exists>r. result = JStr r \<and> (startsWith r ''http'' \<or> startsWith r ''data:'')
            \<and> s = strip_quotes (trim r)"
  using assms unfolding finish_def by (auto split: jsval.splits if_splits)

lemma unwrap_first_throws:
  "unwrap_first data = Inl e \<longleftrightarrow> (\<exists>x xs. data = JArr (x # xs) \<and> (x = JNull \<or> x = JUndefined))"
proof -
  have g: "\<And>x k. (\<exists>e. get_prop x k = Inl e) \<longleftrightarrow> (x = JNull \<or> x = JUndefined)"
    subgoal for x k by (cases x) auto
    done
  show ?thesis
    unfolding unwrap_first_def using g
    apply (cases e)
    apply (auto split: jsval.splits list.splits sum.splits)
    done
qed

lemma extractImageUrl_shape:
  "(extractImageUrl JSON_parse data = Inl TypeError
      \<longleftrightarrow> (\<exists>x xs. data = JArr (x # xs) \<and> (x = JNull \<or> x = JUndefined)))
   \<and> (\<forall>s. extractImageUrl JSON_parse data = Inr (Some s) \<longrightarrow>
         (startsWith s ''http'' \<or> startsWith s ''data:'')
         \<and> (\<exists>r. (startsWith r ''http'' \<or> startsWith r ''data:'') \<and> s = strip_quotes (trim r)))"
proof (intro conjI allI impI)
  show "extractImageUrl JSON_parse data = Inl TypeError
      \<longleftrightarrow> (\<exists>x xs. data = JArr (x # xs) \<and> (x = JNull \<or> x = JUndefined))"
    using unwrap_first_throws [of data TypeError]
    unfolding extractImageUrl_def by (auto split: sum.splits)
next
  fix s assume "extractImageUrl JSON_parse data = Inr (Some s)"
  then obtain v where "finish v = Some s"
    unfolding extractImageUrl_def by (auto split: sum.splits)
  then obtain r where r: "startsWith r ''http'' \<or> startsWith r ''data:''"
      "s = strip_quotes (trim r)"
    using finish_Some by blast
  then show "startsWith s ''http'' \<or> startsWith s ''data:''"
    using http_clean data_clean by blast
  from r show "\<exists>r. (startsWith r ''http'' \<or> startsWith r ''data:'') \<and> s = strip_quotes (trim r)"
    by blast
qed

text \<open>
  Claim C9. For every input, \<open>extractImageUrl\<close> returns null or a string that begins with
  \<open>http\<close> or \<open>data:\<close>. Every value it returns has that shape (\<open>extractImageUrl_shape\<close>), but
  it does not return on every input: on an array whose first element is null, the first step
  reads the property \<open>json\<close> of null and throws a TypeError.
\<close>

theorem extractImageUrl_null_element_throws:
  "extractImageUrl JSON_parse (JArr [JNull]) = Inl TypeError"
  by (simp add: extractImageUrl_def unwrap_first_def)

subsection \<open>The upload form\<close>

lemma showError_images:
  "state_frontImage (showError msg p) = state_frontImage p"
  "state_frontImageData (showError msg p) = state_frontImageData p"
  "state_sideImage (showError msg p) = state_sideImage p"
  "state_sideImageData (showError msg p) = state_sideImageData p"
  "errorMessage_display (showError msg p) = ''flex''"
  "errorText (showError msg p) = msg"
  by (simp_all add: showError_def)

lemma processFile_valid:
  assumes "type_file file \<in> set validTypes" "size_file file \<le> maxSize"
  shows "processFile file typ p = (p, Some (file, typ))"
  using assms unfolding processFile_def by simp

lemma processFile_invalid:
  assumes "\<not> (type_file file \<in> set validTypes \<and> size_file file \<le> maxSize)"
  shows "\<exists>msg. msg \<in> {''Please upload a JPEG or PNG image'', ''Image size must be less than 10MB''}
     \<and> processFile file typ p = (showError msg p, None)"
proof (cases "type_file file \<in> set validTypes")
  case True
  with assms have "size_file file > maxSize" by simp
  with True have "processFile file typ p = (showError ''Image size must be less than 10MB'' p, None)"
    unfolding processFile_def by simp
  then show ?thesis by blast
next
  case False
  then have "processFile file typ p = (showError ''Please upload a JPEG or PNG image'' p, None)"
    unfolding processFile_def by simp
  then show ?thesis by blast
qed

lemma valid_unfold:
  "(type_file file \<in> set validTypes \<and> size_file file \<le> maxSize) \<longleftrightarrow>
   (type_file file \<in> {''image/jpeg'', ''image/jpg'', ''image/png''}
          \<and> size_file file \<le> 10 * 1024 * 1024)"
  by (simp add: validTypes_def maxSize_def)


text \<open>
  The button that starts a calculation on the page is disabled by \<open>validateForm\<close> exactly
  when the front image data is missing, the height text is empty, or its number is not
  greater than zero; a text without a number (NaN) disables it.
\<close>

lemma validateForm_disabled:
  "calculateBtn_disabled (validateForm pf p)
     = (state_frontImageData p = None \<or> heightInput_value p = [] \<or> \<not> js_gt pf 0)"
  unfolding validateForm_def by (auto simp: Let_def)

lemma validateForm_NaN: "calculateBtn_disabled (validateForm NaN p)"
  by (simp add: validateForm_disabled)

text \<open>The stored image changes only when the read of an accepted file has finished.\<close>

lemma reader_onload_stores:
  "state_frontImageData (reader_onload pf (file, front) d p) = Some d"
  "state_frontImage (reader_onload pf (file, front) d p) = Some file"
  "state_sideImageData (reader_onload pf (file, side) d p) = Some d"
  "state_sideImage (reader_onload pf (file, side) d p) = Some file"
  "errorMessage_display (reader_onload pf st d p) = ''none''"
  unfolding reader_onload_def validateForm_def hideError_def
  by (simp_all add: Let_def split: slot.splits)

text \<open>
  Claim C8. For every file, \<open>processFile\<close> accepts it (starts to read it) only if its type
  is one of \<open>image/jpeg\<close>, \<open>image/jpg\<close>, \<open>image/png\<close> and its size is at most
  \<open>10 * 1024 * 1024\<close> bytes, and it accepts every such file; otherwise it starts no read,
  shows an error message, and the stored front and side images and their data are those
  of before.
\<close>

theorem processFile_accepts:
  "(type_file file \<in> {''image/jpeg'', ''image/jpg'', ''image/png''}
      \<and> size_file file \<le> 10 * 1024 * 1024
      \<longrightarrow> processFile file typ p = (p, Some (file, typ)))
   \<and> (\<not> (type_file file \<in> {''image/jpeg'', ''image/jpg'', ''image/png''}
          \<and> size_file file \<le> 10 * 1024 * 1024)
      \<longrightarrow> (\<exists>msg. msg \<noteq> []
            \<and> processFile file typ p = (showError msg p, None)
            \<and> errorText (showError msg p) = msg
            \<and> errorMessage_display (showError msg p) = ''flex''
            \<and> state_frontImage (showError msg p) = state_frontImage p
            \<and> state_frontImageData (showError msg p) = state_frontImageData p
            \<and> state_sideImage (showError msg p) = state_sideImage p
            \<and> state_sideImageData (showError msg p) = state_sideImageData p))"
proof (intro conjI impI)
  assume "type_file file \<in> {''image/jpeg'', ''image/jpg'', ''image/png''}
      \<and> size_file file \<le> 10 * 1024 * 1024"
  then have "type_file file \<in> set validTypes" "size_file file \<le> maxSize"
    using valid_unfold [of "file"] by blast+
  then show "processFile file typ p = (p, Some (file, typ))"
    by (rule processFile_valid)
next
  assume "\<not> (type_file file \<in> {''image/jpeg'', ''image/jpg'', ''image/png''}
          \<and> size_file file \<le> 10 * 1024 * 1024)"
  then have "\<not> (type_file file \<in> set validTypes \<and> size_file file \<le> maxSize)"
    using valid_unfold [of "file"] by blast
  then obtain msg where m:
      "msg \<in> {''Please upload a JPEG or PNG image'', ''Image size must be less than 10MB''}"
      "processFile file typ p = (showError msg p, None)"
    using processFile_invalid by blast
  from m(1) have "msg \<noteq> []" by auto
  with m(2) show "\<exists>msg. msg \<noteq> []
            \<and> processFile file typ p = (showError msg p, None)
            \<and> errorText (showError msg p) = msg
            \<and> errorMessage_display (showError msg p) = ''flex''
            \<and> state_frontImage (showError msg p) = state_frontImage p
            \<and> state_frontImageData (showError msg p) = state_frontImageData p
            \<and> state_sideImage (showError msg p) = state_sideImage p
            \<and> state_sideImageData (showError msg p) = state_sideImageData p"
    using showError_images [of msg p] by blast
qed

theorem processFile_accepts_witness:
  "\<not> (type_file \<lparr>type_file = ''image/gif'', size_file = 2048\<rparr>
         \<in> {''image/jpeg'', ''image/jpg'', ''image/png''}
       \<and> size_file \<lparr>type_file = ''image/gif'', size_file = 2048\<rparr> \<le> 10 * 1024 * 1024)
   \<and> (\<exists>msg. msg \<noteq> [] \<and>
        processFile \<lparr>type_file = ''image/gif'', size_file = 2048\<rparr> front
          \<lparr>state_frontImage = None, state_sideImage = None,
           state_frontImageData = None, state_sideImageData = None,
           frontPreview_src = [], frontPreview_display = ''none'',
           frontPlaceholder_display = ''flex'', frontRemove_display = ''none'',
           sidePreview_src = [], sidePreview_display = ''none'',
           sidePlaceholder_display = ''flex'', sideRemove_display = ''none'',
           heightInput_value = ''170'', calculateBtn_disabled = True,
           errorText = [], errorMessage_display = ''none''\<rparr>
        = (showError msg
          \<lparr>state_frontImage = None, state_sideImage = None,
           state_frontImageData = None, state_sideImageData = None,
           frontPreview_src = [], frontPreview_display = ''none'',
           frontPlaceholder_display = ''flex'', frontRemove_display = ''none'',
           sidePreview_src = [], sidePreview_display = ''none'',
           sidePlaceholder_display = ''flex'', sideRemove_display = ''none'',
           heightInput_value = ''170'', calculateBtn_disabled = True,
           errorText = [], errorMessage_display = ''none''\<rparr>, None))"
proof -
  have h: "\<not> (type_file \<lparr>type_file = ''image/gif'', size_file = 2048\<rparr>
         \<in> {''image/jpeg'', ''image/jpg'', ''image/png''}
       \<and> size_file \<lparr>type_file = ''image/gif'', size_file = 2048\<rparr> \<le> 10 * 1024 * 1024)"
    by simp
  from h processFile_accepts
    [of "\<lparr>type_file = ''image/gif'', size_file = 2048\<rparr>" front
        "\<lparr>state_frontImage = None, state_sideImage = None,
           state_frontImageData = None, state_sideImageData = None,
           frontPreview_src = [], frontPreview_display = ''none'',
           frontPlaceholder_display = ''flex'', frontRemove_display = ''none'',
           sidePreview_src = [], sidePreview_display = ''none'',
           sidePlaceholder_display = ''flex'', sideRemove_display = ''none'',
           heightInput_value = ''170'', calculateBtn_disabled = True,
           errorText = [], errorMessage_display = ''none''\<rparr>"]
  show ?thesis by blast
qed

subsection \<open>The rejection of a measurement request\<close>

lemma calculateMeasurements_rejects:
  assumes "frontImage st = None \<or> frontImage st = Some [] \<or> height st = [] \<or> js_le n 0"
  shows "\<exists>m. m \<in> {''Front image is required'', ''Please enter a valid height''}
           \<and> calculateMeasurements n api st = (st\<lparr>error := Some m\<rparr>, [])"
proof (cases "frontImage st")
  case None
  then have "calculateMeasurements n api st = (st\<lparr>error := Some ''Front image is required''\<rparr>, [])"
    unfolding calculateMeasurements_def by simp
  then show ?thesis by blast
next
  case (Some img)
  show ?thesis
  proof (cases "img = []")
    case True
    with Some have "calculateMeasurements n api st
        = (st\<lparr>error := Some ''Front image is required''\<rparr>, [])"
      unfolding calculateMeasurements_def by simp
    then show ?thesis by blast
  next
    case False
    with Some assms have "height st = [] \<or> js_le n 0" by simp
    with Some False have "calculateMeasurements n api st
        = (st\<lparr>error := Some ''Please enter a valid height''\<rparr>, [])"
      unfolding calculateMeasurements_def by (simp only: option.case if_False if_True)
    then show ?thesis by blast
  qed
qed

lemma calculateMeasurements_sends:
  assumes "frontImage st = Some img" "img \<noteq> []" "height st \<noteq> []" "\<not> js_le n 0"
  shows "snd (calculateMeasurements n api st)
     = [\<lparr>front_image = Some img, side_image = sideImage st, calibration_height = n,
         units_req = units st, gender_req = gender st\<rparr>]"
  using assms unfolding calculateMeasurements_def
  by (simp add: Let_def)

lemma calculateMeasurements_answered:
  assumes "frontImage st = Some img" "img \<noteq> []" "height st \<noteq> []" "\<not> js_le n 0"
    and "api \<lparr>front_image = Some img, side_image = sideImage st, calibration_height = n,
         units_req = units st, gender_req = gender st\<rparr> = Resolved data"
    and "\<not> success data"
  shows "fst (calculateMeasurements n api st)
     = st\<lparr>loading := False,
           error := Some (or_else (message data) ''Failed to calculate measurements'')\<rparr>"
  using assms unfolding calculateMeasurements_def
  by (simp add: Let_def)

lemma service_rejects:
  assumes "front_image req = None \<or> \<not> js_gt (calibration_height req) 0"
  shows "measurement_service msg pipeline req = failure_response msg"
  using assms unfolding measurement_service_def validate_request_def by auto

lemma failure_response_fields:
  "\<not> success (failure_response msg)"
  "measurements_of (failure_response msg) = None"
  "message (failure_response msg) = Some msg"
  by (simp_all add: failure_response_def)

text \<open>
  Claim C3. A measurement request in which the front image is missing, or whose calibration
  height is not a number greater than zero, is rejected by the validation of the service
  at once, with \<open>success=false\<close> and no measurements, whatever the computing stages would
  do. A submission of the form TryOn in which the front image is missing or the height is
  not a number greater than zero ends with an error shown and the stored results as they
  were: the form rejects it itself, or it sends a request that the service rejects.
\<close>

theorem measurement_request_rejected:
  "(front_image req = None \<or> \<not> js_gt (calibration_height req) 0 \<longrightarrow>
      validate_request req = Some ValidationError
      \<and> measurement_service msg pipeline req = failure_response msg
      \<and> \<not> success (measurement_service msg pipeline req)
      \<and> measurements_of (measurement_service msg pipeline req) = None)
   \<and> (frontImage st = None \<or> frontImage st = Some [] \<or> height st = [] \<or> \<not> js_gt n 0 \<longrightarrow>
        error (fst (calculateMeasurements n (\<lambda>r. Resolved (measurement_service msg pipeline r)) st))
          \<noteq> None
        \<and> results (fst (calculateMeasurements n
               (\<lambda>r. Resolved (measurement_service msg pipeline r)) st)) = results st
        \<and> (\<forall>r\<in>set (snd (calculateMeasurements n
               (\<lambda>r. Resolved (measurement_service msg pipeline r)) st)).
              measurement_service msg pipeline r = failure_response msg))"
proof (intro conjI impI)
  assume a: "front_image req = None \<or> \<not> js_gt (calibration_height req) 0"
  then show "validate_request req = Some ValidationError"
    unfolding validate_request_def by auto
  from a show "measurement_service msg pipeline req = failure_response msg"
    by (rule service_rejects)
  then show "\<not> success (measurement_service msg pipeline req)"
    "measurements_of (measurement_service msg pipeline req) = None"
    by (simp_all add: failure_response_fields)
next
  let ?api = "\<lambda>r. Resolved (measurement_service msg pipeline r)"
  assume h: "frontImage st = None \<or> frontImage st = Some [] \<or> height st = [] \<or> \<not> js_gt n 0"
  have "error (fst (calculateMeasurements n ?api st)) \<noteq> None
        \<and> results (fst (calculateMeasurements n ?api st)) = results st
        \<and> (\<forall>r\<in>set (snd (calculateMeasurements n ?api st)).
              measurement_service msg pipeline r = failure_response msg)"
  proof (cases "frontImage st = None \<or> frontImage st = Some [] \<or> height st = [] \<or> js_le n 0")
    case True
    from calculateMeasurements_rejects [OF True, of ?api]
    obtain m where "calculateMeasurements n ?api st = (st\<lparr>error := Some m\<rparr>, [])"
      by blast
    then show ?thesis by simp
  next
    case False
    then obtain img where f: "frontImage st = Some img" "img \<noteq> []" "height st \<noteq> []"
        "\<not> js_le n 0"
      by (cases "frontImage st") auto
    with h have "\<not> js_gt n 0" by auto
    let ?req = "\<lparr>front_image = Some img, side_image = sideImage st, calibration_height = n,
         units_req = units st, gender_req = gender st\<rparr>"
    have r: "measurement_service msg pipeline ?req = failure_response msg"
      using \<open>\<not> js_gt n 0\<close> by (intro service_rejects) simp
    have s: "snd (calculateMeasurements n ?api st) = [?req]"
      using f by (rule calculateMeasurements_sends)
    have "fst (calculateMeasurements n ?api st)
       = st\<lparr>loading := False,
             error := Some (or_else (message (failure_response msg))
                              ''Failed to calculate measurements'')\<rparr>"
      using f r by (intro calculateMeasurements_answered) (simp_all add: failure_response_fields)
    with r s show ?thesis by simp
  qed
  then show "error (fst (calculateMeasurements n ?api st)) \<noteq> None"
    "results (fst (calculateMeasurements n ?api st)) = results st"
    "\<forall>r\<in>set (snd (calculateMeasurements n ?api st)).
              measurement_service msg pipeline r = failure_response msg"
    by blast+
qed

theorem measurement_request_rejected_witness:
  "front_image \<lparr>front_image = None, side_image = None, calibration_height = Finite 170,
       units_req = metric, gender_req = female\<rparr> = None
   \<and> \<not> success (measurement_service ''Validation failed''
         (\<lambda>r. \<lparr>success = True, measurements_of = None, front_landmarks = None,
                side_landmarks = None, message = None\<rparr>)
         \<lparr>front_image = None, side_image = None, calibration_height = Finite 170,
          units_req = metric, gender_req = female\<rparr>)
   \<and> \<not> js_gt NaN 0
   \<and> error (fst (calculateMeasurements NaN
         (\<lambda>r. Resolved (measurement_service ''Validation failed''
            (\<lambda>r. \<lparr>success = True, measurements_of = None, front_landmarks = None,
                   side_landmarks = None, message = None\<rparr>) r))
         \<lparr>frontImage = Some ''data:image/png;base64,AAAA'', sideImage = None, height = ''abc'',
          units = metric, gender = female, loading = False, error = None, results = None,
          showRecommendations = False\<rparr>)) \<noteq> None"
proof -
  have a: "front_image \<lparr>front_image = None, side_image = None, calibration_height = Finite 170,
       units_req = metric, gender_req = female\<rparr> = None"
    by simp
  have b: "\<not> js_gt NaN 0" by simp
  from a b measurement_request_rejected
    [of "\<lparr>front_image = None, side_image = None, calibration_height = Finite 170,
          units_req = metric, gender_req = female\<rparr>"
        "''Validation failed''"
        "\<lambda>r. \<lparr>success = True, measurements_of = None, front_landmarks = None,
                side_landmarks = None, message = None\<rparr>"
        "\<lparr>frontImage = Some ''data:image/png;base64,AAAA'', sideImage = None, height = ''abc'',
          units = metric, gender = female, loading = False, error = None, results = None,
          showRecommendations = False\<rparr>"
        NaN]
  show ?thesis by blast
qed

text \<open>
  The guard of the form alone does not stop a height text that is not a numeral: its number
  is NaN, the comparison \<^verbatim>\<open>Number(height) <= 0\<close> is false, and the request goes to the
  server with the calibration height NaN.
\<close>

lemma calculateMeasurements_nan_is_sent:
  "snd (calculateMeasurements NaN api
       \<lparr>frontImage = Some ''data:image/png;base64,AAAA'', sideImage = None, height = ''abc'',
        units = metric, gender = female, loading = False, error = None, results = None,
        showRecommendations = False\<rparr>)
     = [\<lparr>front_image = Some ''data:image/png;base64,AAAA'', side_image = None,
          calibration_height = NaN, units_req = metric, gender_req = female\<rparr>]"
  by (simp add: calculateMeasurements_sends)

subsection \<open>The skeleton overlay\<close>

lemma draw_landmark_iff: "draw_landmark lm \<noteq> [] \<longleftrightarrow> visibility lm > 1/2"
  unfolding draw_landmark_def by simp

lemma draw_connection_iff:
  "draw_connection lms (s, e) \<noteq> [] \<longleftrightarrow>
     s < length lms \<and> e < length lms \<and> visibility (lms ! s) > 1/2 \<and> visibility (lms ! e) > 1/2"
  unfolding draw_connection_def at_index_def by simp

text \<open>
  Claim C6, as the overlay has it. A landmark is drawn exactly when its visibility is
  greater than \<open>0.5\<close>, and a connection exactly when both its landmarks exist and the
  visibility of each is greater than \<open>0.5\<close>; the canvas holds the background, the lines of
  these connections and the dots of these landmarks, and nothing else.
\<close>

theorem drawSkeleton_threshold:
  "(draw_landmark lm \<noteq> [] \<longleftrightarrow> visibility lm > 1/2)
   \<and> (draw_connection lms (s, e) \<noteq> [] \<longleftrightarrow>
        s < length lms \<and> e < length lms
        \<and> visibility (lms ! s) > 1/2 \<and> visibility (lms ! e) > 1/2)
   \<and> drawSkeleton lms =
       FillRect 0 0 600 800
       # map (\<lambda>c. Line (lm_x (lms ! fst c) * 600) (lm_y (lms ! fst c) * 800)
                        (lm_x (lms ! snd c) * 600) (lm_y (lms ! snd c) * 800))
           (filter (\<lambda>c. fst c < length lms \<and> snd c < length lms
                       \<and> visibility (lms ! fst c) > 1/2 \<and> visibility (lms ! snd c) > 1/2)
              connections)
       @ map (\<lambda>lm. Arc (lm_x lm * 600) (lm_y lm * 800) 5)
           (filter (\<lambda>lm. visibility lm > 1/2) lms)"
proof (intro conjI)
  show "draw_landmark lm \<noteq> [] \<longleftrightarrow> visibility lm > 1/2" by (rule draw_landmark_iff)
  show "draw_connection lms (s, e) \<noteq> [] \<longleftrightarrow>
        s < length lms \<and> e < length lms
        \<and> visibility (lms ! s) > 1/2 \<and> visibility (lms ! e) > 1/2"
    by (rule draw_connection_iff)
  have a: "concat (map draw_landmark xs) = map (\<lambda>lm. Arc (lm_x lm * 600) (lm_y lm * 800) 5)
           (filter (\<lambda>lm. visibility lm > 1/2) xs)" for xs
    by (induction xs) (simp_all add: draw_landmark_def)
  have b: "concat (map (draw_connection lms) cs) =
      map (\<lambda>c. Line (lm_x (lms ! fst c) * 600) (lm_y (lms ! fst c) * 800)
                        (lm_x (lms ! snd c) * 600) (lm_y (lms ! snd c) * 800))
           (filter (\<lambda>c. fst c < length lms \<and> snd c < length lms
                       \<and> visibility (lms ! fst c) > 1/2 \<and> visibility (lms ! snd c) > 1/2)
              cs)" for cs
    by (induction cs) (simp_all add: draw_connection_def at_index_def)
  show "drawSkeleton lms =
       FillRect 0 0 600 800
       # map (\<lambda>c. Line (lm_x (lms ! fst c) * 600) (lm_y (lms ! fst c) * 800)
                        (lm_x (lms ! snd c) * 600) (lm_y (lms ! snd c) * 800))
           (filter (\<lambda>c. fst c < length lms \<and> snd c < length lms
                       \<and> visibility (lms ! fst c) > 1/2 \<and> visibility (lms ! snd c) > 1/2)
              connections)
       @ map (\<lambda>lm. Arc (lm_x lm * 600) (lm_y lm * 800) 5)
           (filter (\<lambda>lm. visibility lm > 1/2) lms)"
    unfolding drawSkeleton_def by (simp only: a b)
qed

text \<open>A landmark whose visibility is exactly \<open>0.5\<close> is not drawn.\<close>

theorem drawSkeleton_half_counterexample:
  "visibility \<lparr>lm_x = 1/2, lm_y = 1/2, visibility = 1/2\<rparr> \<ge> 1/2
   \<and> draw_landmark \<lparr>lm_x = 1/2, lm_y = 1/2, visibility = 1/2\<rparr> = []
   \<and> drawSkeleton [\<lparr>lm_x = 1/2, lm_y = 1/2, visibility = 1/2\<rparr>] = [FillRect 0 0 600 800]"
  by (simp add: draw_landmark_def drawSkeleton_def draw_connection_def at_index_def connections_def)

subsection \<open>The size-fit engine\<close>

lemma clamp_unit: "0 \<le> clamp v 0 1 \<and> clamp v 0 1 \<le> 1"
  unfolding clamp_def by simp

lemma mset_insert_by_score: "mset (insert_by_score r xs) = add_mset r (mset xs)"
  by (induction xs) simp_all

lemma set_insert_by_score: "set (insert_by_score r xs) = insert r (set xs)"
  by (induction xs) auto

lemma non_increasing_insert:
  "non_increasing xs \<Longrightarrow> non_increasing (insert_by_score r xs)"
proof (induction xs)
  case Nil
  then show ?case by simp
next
  case (Cons x xs)
  show ?case
  proof (cases "fit_score x \<le> fit_score r")
    case True
    with Cons.prems show ?thesis by (auto intro: order_trans)
  next
    case False
    with Cons show ?thesis by (auto simp: set_insert_by_score)
  qed
qed

lemma mset_rank_by_score: "mset (rank_by_score recs) = mset recs"
  unfolding rank_by_score_def by (induction recs) (simp_all add: mset_insert_by_score)

lemma set_rank_by_score: "set (rank_by_score recs) = set recs"
  using mset_rank_by_score [of recs] by (metis set_mset_mset)

lemma non_increasing_rank: "non_increasing (rank_by_score recs)"
  unfolding rank_by_score_def by (induction recs) (simp_all add: non_increasing_insert)

lemma length_rank_by_score: "length (rank_by_score recs) = length recs"
  using mset_rank_by_score [of recs] by (metis size_mset)

lemma bestFit_greatest:
  assumes "non_increasing recs" "bestFit recs = Some best" "r \<in> set recs"
  shows "fit_score r \<le> fit_score best"
  using assms unfolding bestFit_def by (cases recs) auto

lemma recommend_Inr:
  assumes "recommend catalog actual k = Inr resp"
  shows "\<exists>display_name bands. catalog k = Some (display_name, bands)
           \<and> garment_category resp = k \<and> garment_name resp = display_name
           \<and> recommendations resp = rank_by_score (map (score_band actual) bands)"
  using assms unfolding recommend_def by (auto split: option.splits)

lemma bestFit_rank_first_greatest:
  "bestFit (rank_by_score recs) = find (\<lambda>r. \<forall>r'\<in>set recs. fit_score r' \<le> fit_score r) recs"
proof (induction recs)
  case Nil
  then show ?case by (simp add: rank_by_score_def bestFit_def)
next
  case (Cons x xs)
  have step: "rank_by_score (x # xs) = insert_by_score x (rank_by_score xs)"
    by (simp add: rank_by_score_def)
  show ?case
  proof (cases "rank_by_score xs")
    case Nil
    then have "xs = []" using length_rank_by_score [of xs] by simp
    then show ?thesis by (simp add: rank_by_score_def bestFit_def)
  next
    case (Cons y ys)
    then have y: "bestFit (rank_by_score xs) = Some y" by (simp add: bestFit_def)
    have ymax: "\<forall>r'\<in>set xs. fit_score r' \<le> fit_score y"
      using bestFit_greatest [OF non_increasing_rank y] set_rank_by_score by blast
    have yin: "y \<in> set xs" using Cons set_rank_by_score [of xs] by auto
    show ?thesis
    proof (cases "fit_score y \<le> fit_score x")
      case True
      then have "bestFit (rank_by_score (x # xs)) = Some x"
        using step Cons by (simp add: bestFit_def)
      moreover from True ymax have "\<forall>r'\<in>set (x # xs). fit_score r' \<le> fit_score x"
        by (auto intro: order_trans)
      ultimately show ?thesis by simp
    next
      case False
      then have b: "bestFit (rank_by_score (x # xs)) = Some y"
        using step Cons by (simp add: bestFit_def)
      from False yin have nx: "\<not> (\<forall>r'\<in>set (x # xs). fit_score r' \<le> fit_score x)"
        by auto
      have same: "find (\<lambda>r. \<forall>r'\<in>set (x # xs). fit_score r' \<le> fit_score r) xs
          = find (\<lambda>r. \<forall>r'\<in>set xs. fit_score r' \<le> fit_score r) xs"
      proof (rule find_cong)
        fix r assume "r \<in> set xs"
        show "(\<forall>r'\<in>set (x # xs). fit_score r' \<le> fit_score r)
            = (\<forall>r'\<in>set xs. fit_score r' \<le> fit_score r)"
        proof
          assume "\<forall>r'\<in>set (x # xs). fit_score r' \<le> fit_score r"
          then show "\<forall>r'\<in>set xs. fit_score r' \<le> fit_score r" by simp
        next
          assume a: "\<forall>r'\<in>set xs. fit_score r' \<le> fit_score r"
          with yin have "fit_score y \<le> fit_score r" by blast
          with False have "fit_score x \<le> fit_score r" by simp
          with a show "\<forall>r'\<in>set (x # xs). fit_score r' \<le> fit_score r" by simp
        qed
      qed simp
      have "find (\<lambda>r. \<forall>r'\<in>set (x # xs). fit_score r' \<le> fit_score r) (x # xs)
          = find (\<lambda>r. \<forall>r'\<in>set (x # xs). fit_score r' \<le> fit_score r) xs"
        using nx by (simp only: find.simps if_False)
      also have "\<dots> = find (\<lambda>r. \<forall>r'\<in>set xs. fit_score r' \<le> fit_score r) xs"
        by (rule same)
      also have "\<dots> = bestFit (rank_by_score xs)"
        by (rule Cons.IH [symmetric])
      also have "\<dots> = Some y" by (rule y)
      finally show ?thesis using b by simp
    qed
  qed
qed

text \<open>
  Claim C1. For every successful response of the recommendation stage, the recommendations
  are ordered by fit score, non-increasing, with one entry for each band of the category (the
  scored bands, as a multiset); so the element that the pages read first, when there is
  one, has a fit score that no other recommendation exceeds, and there is one whenever the
  list is not empty.
\<close>

theorem recommendations_sorted:
  assumes "recommend catalog actual k = Inr resp"
  shows "non_increasing (recommendations resp)
     \<and> (\<exists>display_name bands. catalog k = Some (display_name, bands)
           \<and> length (recommendations resp) = length bands
           \<and> mset (recommendations resp) = mset (map (score_band actual) bands))
     \<and> (\<forall>best. bestFit (recommendations resp) = Some best \<longrightarrow>
           (\<forall>r\<in>set (recommendations resp). fit_score r \<le> fit_score best))
     \<and> (recommendations resp \<noteq> [] \<longrightarrow> bestFit (recommendations resp) \<noteq> None)"
proof -
  from recommend_Inr [OF assms] obtain display_name bands where
      c: "catalog k = Some (display_name, bands)"
      and r: "recommendations resp = rank_by_score (map (score_band actual) bands)"
    by blast
  have s: "non_increasing (recommendations resp)"
    unfolding r by (rule non_increasing_rank)
  have "length (recommendations resp) = length bands"
    unfolding r by (simp add: length_rank_by_score)
  moreover have "mset (recommendations resp) = mset (map (score_band actual) bands)"
    unfolding r by (rule mset_rank_by_score)
  moreover have "\<forall>best. bestFit (recommendations resp) = Some best \<longrightarrow>
           (\<forall>r\<in>set (recommendations resp). fit_score r \<le> fit_score best)"
    using bestFit_greatest [OF s] by blast
  moreover have "recommendations resp \<noteq> [] \<longrightarrow> bestFit (recommendations resp) \<noteq> None"
    by (cases "recommendations resp") (simp_all add: bestFit_def)
  ultimately show ?thesis using s c by blast
qed

theorem recommendations_sorted_witness:
  "recommend [''MENS_PANTS'' \<mapsto> (''Mens Pants'',
        [\<lparr>size_label = ''S'', band_ranges = [(Waist, 65, 75)]\<rparr>,
         \<lparr>size_label = ''M'', band_ranges = [(Waist, 75, 85)]\<rparr>])]
      (\<lambda>m. 80) ''MENS_PANTS''
     = Inr \<lparr>garment_category = ''MENS_PANTS'', garment_name = ''Mens Pants'',
            recommendations = [\<lparr>size_rec = ''M'', fit_score = 1\<rparr>,
                               \<lparr>size_rec = ''S'', fit_score = 0\<rparr>]\<rparr>
   \<and> non_increasing [\<lparr>size_rec = ''M'', fit_score = 1\<rparr>, \<lparr>size_rec = ''S'', fit_score = 0\<rparr>]
   \<and> bestFit [\<lparr>size_rec = ''M'', fit_score = 1\<rparr>, \<lparr>size_rec = ''S'', fit_score = 0\<rparr>]
       = Some \<lparr>size_rec = ''M'', fit_score = 1\<rparr>"
proof -
  have e: "recommend [''MENS_PANTS'' \<mapsto> (''Mens Pants'',
        [\<lparr>size_label = ''S'', band_ranges = [(Waist, 65, 75)]\<rparr>,
         \<lparr>size_label = ''M'', band_ranges = [(Waist, 75, 85)]\<rparr>])]
      (\<lambda>m. 80) ''MENS_PANTS''
     = Inr \<lparr>garment_category = ''MENS_PANTS'', garment_name = ''Mens Pants'',
            recommendations = [\<lparr>size_rec = ''M'', fit_score = 1\<rparr>,
                               \<lparr>size_rec = ''S'', fit_score = 0\<rparr>]\<rparr>"
    by (simp add: recommend_def rank_by_score_def score_band_def aggregate_deviation_def
          deviation_def clamp_def)
  from recommendations_sorted [OF e] e show ?thesis
    by (simp add: bestFit_def)
qed

text \<open>
  Claim C5. The fit score of the recommendation made for any band lies between 0 and 1,
  and so does the fit score of every recommendation of every successful response.
\<close>

theorem fit_score_unit_interval:
  "0 \<le> fit_score (score_band actual band) \<and> fit_score (score_band actual band) \<le> 1
   \<and> (\<forall>resp. recommend catalog actual k = Inr resp \<longrightarrow>
        (\<forall>r\<in>set (recommendations resp). 0 \<le> fit_score r \<and> fit_score r \<le> 1))"
proof (intro conjI allI impI ballI)
  show "0 \<le> fit_score (score_band actual band)" "fit_score (score_band actual band) \<le> 1"
    using clamp_unit by (simp_all add: score_band_def)
next
  fix resp r
  assume a: "recommend catalog actual k = Inr resp" and m: "r \<in> set (recommendations resp)"
  from recommend_Inr [OF a] obtain bands where
      "recommendations resp = rank_by_score (map (score_band actual) bands)"
    by blast
  with m have "r \<in> set (map (score_band actual) bands)"
    by (simp add: set_rank_by_score)
  then obtain b where "r = score_band actual b" by auto
  then show "0 \<le> fit_score r" "fit_score r \<le> 1"
    using clamp_unit by (simp_all add: score_band_def)
qed

theorem fit_score_unit_interval_witness:
  "recommend [''WOMENS_SKIRT'' \<mapsto> (''Skirt'',
        [\<lparr>size_label = ''M'', band_ranges = [(Waist, 75, 85), (Hip, 95, 105)]\<rparr>])]
      (\<lambda>m. if m = Waist then 80 else 100) ''WOMENS_SKIRT''
     = Inr \<lparr>garment_category = ''WOMENS_SKIRT'', garment_name = ''Skirt'',
            recommendations = [\<lparr>size_rec = ''M'', fit_score = 1\<rparr>]\<rparr>
   \<and> 0 \<le> fit_score \<lparr>size_rec = ''M'', fit_score = 1\<rparr>
   \<and> fit_score \<lparr>size_rec = ''M'', fit_score = 1\<rparr> \<le> 1"
proof -
  have e: "recommend [''WOMENS_SKIRT'' \<mapsto> (''Skirt'',
        [\<lparr>size_label = ''M'', band_ranges = [(Waist, 75, 85), (Hip, 95, 105)]\<rparr>])]
      (\<lambda>m. if m = Waist then 80 else 100) ''WOMENS_SKIRT''
     = Inr \<lparr>garment_category = ''WOMENS_SKIRT'', garment_name = ''Skirt'',
            recommendations = [\<lparr>size_rec = ''M'', fit_score = 1\<rparr>]\<rparr>"
    by (simp add: recommend_def rank_by_score_def score_band_def aggregate_deviation_def
          deviation_def clamp_def)
  from fit_score_unit_interval
    [of "\<lambda>m. if m = Waist then 80 else 100" "\<lparr>size_label = ''M'', band_ranges = []\<rparr>"
        "[''WOMENS_SKIRT'' \<mapsto> (''Skirt'',
        [\<lparr>size_label = ''M'', band_ranges = [(Waist, 75, 85), (Hip, 95, 105)]\<rparr>])]"
        "''WOMENS_SKIRT''"] e
  show ?thesis by simp
qed

end
